theory Spec2Isabelle
  imports Main "HOL-Library.AList" "HOL-Library.Char_ord" "HOL-Library.List_Lexorder"
    "HOL-Library.Multiset"
begin

section \<open>The AwesomeTTS service router (awesometts/classes/router.py)\<close>

text \<open>
  The router sits between the user interface and the text-to-speech services. This
  theory embeds the Python 2 class \<^verbatim>\<open>Router\<close> and its helpers \<^verbatim>\<open>_Pool\<close> and
  \<^verbatim>\<open>_Worker\<close>: dictionaries are association lists in iteration order, mutation is
  explicit state passing, every \<^verbatim>\<open>raise\<close> is a value of a sum type, and every call
  that leaves the router (a service constructor, \<^verbatim>\<open>os.path.exists\<close>, the pool,
  a caller's callback) is an entry of a trace. The logger is write-only and is left out,
  except that its record of an initialization attempt is the trace entry \<open>CallInit\<close>.
  Strings are Python 2 byte strings.
\<close>

subsection \<open>Python values, strings and exceptions\<close>

text \<open>Values found in option dictionaries: strings and integers.\<close>

datatype pyval = VStr string | VInt int

text \<open>
  The exception classes the router tells apart. In Python 2, \<^verbatim>\<open>StandardError\<close> is the
  base of the built-in errors; \<^verbatim>\<open>StopIteration\<close>, warnings and classes that derive
  from \<^verbatim>\<open>Exception\<close> directly are outside of it, and \<^verbatim>\<open>except StandardError\<close> lets
  them pass. \<open>OtherStandardError\<close> and \<open>OtherException\<close> carry the class name.
\<close>

datatype exc_class =
    ValueError | EnvironmentError | BusyError | AssertionError | TypeError | IndexError
  | KeyError | StopIteration | OtherStandardError string | OtherException string

datatype exc = Exc (exc_cls: exc_class) (message: string)

fun is_StandardError :: "exc_class \<Rightarrow> bool" where
  "is_StandardError StopIteration = False"
| "is_StandardError (OtherException _) = False"
| "is_StandardError _ = True"

text \<open>\<^verbatim>\<open>str(n)\<close> for an integer: its decimal digits, with a sign.\<close>

fun str_nat :: "nat \<Rightarrow> string" where
  "str_nat n = (if n < 10 then [char_of (48 + n)] else str_nat (n div 10) @ [char_of (48 + n mod 10)])"

declare str_nat.simps [simp del]

definition str_int :: "int \<Rightarrow> string" where
  "str_int i = (if i < 0 then CHR ''-'' # str_nat (nat (- i)) else str_nat (nat i))"

fun str :: "pyval \<Rightarrow> string" where
  "str (VStr s) = s"
| "str (VInt i) = str_int i"

text \<open>\<^verbatim>\<open>sep.join(parts)\<close>\<close>

fun py_join :: "string \<Rightarrow> string list \<Rightarrow> string" where
  "py_join sep [] = []"
| "py_join sep [x] = x"
| "py_join sep (x # y # ys) = x @ sep @ py_join sep (y # ys)"

text \<open>\<^verbatim>\<open>s.endswith(t)\<close> and \<^verbatim>\<open>s.startswith(t)\<close>\<close>

definition endswith :: "string \<Rightarrow> string \<Rightarrow> bool" where
  "endswith s t = (length t \<le> length s \<and> drop (length s - length t) s = t)"

definition startswith :: "string \<Rightarrow> string \<Rightarrow> bool" where
  "startswith s t = (take (length t) s = t)"

text \<open>\<^verbatim>\<open>os.path.join(a, b)\<close> of posixpath, for two components.\<close>

definition os_path_join :: "string \<Rightarrow> string \<Rightarrow> string" where
  "os_path_join a b =
     (if startswith b ''/'' then b
      else if a = [] \<or> endswith a ''/'' then a @ b
      else a @ ''/'' @ b)"

subsection \<open>The cache path (Router._path_cache)\<close>

text \<open>
  A dictionary is an association list with distinct keys; \<^verbatim>\<open>sorted(options.items())\<close>
  orders the pairs by key (Python compares the keys first, and the keys of a dictionary
  differ). \<^verbatim>\<open>hashlib.sha1(...).hexdigest()\<close> is the parameter \<open>sha1_hexdigest\<close>.
\<close>

type_synonym options = "(string \<times> pyval) list"

definition sorted_items :: "options \<Rightarrow> options" where
  "sorted_items options = sort_key fst options"

definition path_cache ::
  "(string \<Rightarrow> string) \<Rightarrow> string \<Rightarrow> string \<Rightarrow> string \<Rightarrow> options \<Rightarrow> string" where
  "path_cache sha1_hexdigest cache_dir svc_id text options =
     (let hash_input = py_join ''/'' [
            text,
            svc_id,
            py_join '';'' (map (\<lambda>(key, value). py_join ''='' [key, str value])
                               (sorted_items options))]
      in os_path_join cache_dir
           (py_join ''.'' [py_join ''-'' [svc_id, sha1_hexdigest hash_input], ''mp3'']))"

subsection \<open>Option descriptors, services and the router's state\<close>

text \<open>
  The domain of an option (\<^verbatim>\<open>option['values']\<close>): a list of (value, description)
  pairs, a tuple (of bounds, and a unit), or an object that is neither.
\<close>

datatype value_domain = ListOf "(pyval \<times> string) list" | TupleOf "pyval list" | OtherObject

text \<open>
  A dictionary as a service's \<^verbatim>\<open>options()\<close> returns it: each entry may be missing.
  A transform returns the value or raises.
\<close>

record raw_option =
  raw_key :: "string option"
  raw_label :: "string option"
  raw_values :: "value_domain option"
  raw_transform :: "(pyval \<Rightarrow> exc + pyval) option"
  raw_default :: "pyval option"

text \<open>
  The same dictionary once the assertions of \<^verbatim>\<open>_fetch_options\<close> have passed: the key,
  the label, the values and the transform are there, the default may not be.
\<close>

record svc_option =
  opt_key :: string
  opt_label :: string
  opt_values :: value_domain
  opt_transform :: "pyval \<Rightarrow> exc + pyval"
  opt_default :: "pyval option"

text \<open>
  A service object: \<^verbatim>\<open>options()\<close>, \<^verbatim>\<open>desc()\<close> and \<^verbatim>\<open>run(text, options, path)\<close>,
  which returns (\<open>None\<close>) or raises.
\<close>

record service_instance =
  inst_options :: "raw_option list"
  inst_desc :: string
  inst_run :: "string \<Rightarrow> options \<Rightarrow> string \<Rightarrow> exc option"

text \<open>
  A service class: \<^verbatim>\<open>NAME\<close>, \<^verbatim>\<open>TRAITS\<close>, and what calling it with the bundle's
  \<^verbatim>\<open>args\<close> and \<^verbatim>\<open>kwargs\<close> does: it raises or returns the object.
\<close>

record svc_class =
  cls_NAME :: "string option"
  cls_TRAITS :: "string list option"
  construct :: "exc + service_instance"

text \<open>
  An entry of \<^verbatim>\<open>services.lookup\<close>. The entries \<^verbatim>\<open>'instance'\<close>, \<^verbatim>\<open>'options'\<close> and
  \<^verbatim>\<open>'desc'\<close> are absent (\<open>None\<close>) until first use; \<^verbatim>\<open>'instance'\<close> present and
  \<^verbatim>\<open>None\<close> is \<open>Some None\<close>.
\<close>

record service =
  svc_class :: svc_class
  svc_name :: string
  svc_traits :: "string list"
  svc_instance :: "service_instance option option"
  svc_options :: "svc_option list option"
  svc_desc :: "string option"

record services =
  aliases :: "(string \<times> string) list"
  avail :: "(string \<times> string) list option"
  lookup :: "(string \<times> service) list"
  normalize_id :: "string \<Rightarrow> string"
  textize :: "string \<Rightarrow> string"

text \<open>
  The caller's callbacks. \<^verbatim>\<open>'okay'\<close> and \<^verbatim>\<open>'fail'\<close> are required (the three
  assertions at the head of \<^verbatim>\<open>__call__\<close>); \<open>has_done\<close> is \<^verbatim>\<open>'done' in callbacks\<close>, and
  \<open>fail_result\<close> is the truth value of what \<^verbatim>\<open>callbacks['fail']\<close> returns (\<open>False\<close> for
  a callback that returns \<^verbatim>\<open>None\<close>).
\<close>

record callbacks =
  has_done :: bool
  fail_result :: bool

text \<open>The two lambdas handed to \<^verbatim>\<open>_Pool.spawn\<close>, with the variables they close over.\<close>

record task =
  task_service :: service
  task_text :: string
  task_options :: options
  task_path :: string

record closure =
  cl_path :: string
  cl_callbacks :: callbacks

record pool =
  next_id :: nat
  pool_callbacks :: "(nat \<times> closure) list"
  workers :: "(nat \<times> task) list"

record router =
  busy :: "string list"
  cache_dir :: string
  pool :: pool
  services :: services

text \<open>What the router does to the world around it, in order.\<close>

datatype event =
    CallInit string
  | CallOptions string
  | CallDesc string
  | CallExists string
  | Spawn nat string
  | CbDone
  | CbOkay string
  | CbFail exc

text \<open>
  A method returns or raises, has changed the router by then, and has left a trace:
  the result of a method is a triple.
\<close>

type_synonym 'a result = "(exc + 'a) \<times> router \<times> event list"

definition quoted :: "string \<Rightarrow> string" where
  "quoted s = [CHR 0x27] @ s @ [CHR 0x27]"

subsection \<open>The registry (Router.__init__, _load_service, _fetch_service)\<close>

text \<open>A dictionary comprehension: a later pair with the same key replaces the earlier one.\<close>

definition dict_of :: "('k \<times> 'v) list \<Rightarrow> ('k \<times> 'v) list" where
  "dict_of kvs = foldl (\<lambda>d (k, v). AList.update k v d) [] kvs"

definition new_service :: "string \<Rightarrow> svc_class \<Rightarrow> service" where
  "new_service svc_id cls =
     \<lparr> svc_class = cls,
       svc_name = (case cls_NAME cls of None \<Rightarrow> svc_id
                   | Some n \<Rightarrow> if n = [] then svc_id else n),
       svc_traits = (case cls_TRAITS cls of None \<Rightarrow> [] | Some ts \<Rightarrow> ts),
       svc_instance = None,
       svc_options = None,
       svc_desc = None \<rparr>"

definition new_pool :: pool where
  "new_pool = \<lparr> next_id = 0, pool_callbacks = [], workers = [] \<rparr>"

definition router_init ::
  "(string \<times> svc_class) list \<Rightarrow> (string \<times> string) list \<Rightarrow> (string \<Rightarrow> string) \<Rightarrow>
   (string \<Rightarrow> string) \<Rightarrow> string \<Rightarrow> router" where
  "router_init mappings aliases0 normalize0 textize0 dir =
     \<lparr> busy = [],
       cache_dir = dir,
       pool = new_pool,
       services = \<lparr>
         aliases = dict_of (map (\<lambda>(from_svc_id, to_svc_id).
                      (normalize0 from_svc_id, normalize0 to_svc_id)) aliases0),
         avail = None,
         lookup = dict_of (map (\<lambda>(svc_id, cls).
                      (normalize0 svc_id, new_service svc_id cls)) mappings),
         normalize_id = normalize0,
         textize = textize0 \<rparr> \<rparr>"

text \<open>
  \<^verbatim>\<open>_load_service\<close>: nothing happens when the entry \<^verbatim>\<open>'instance'\<close> is there. Otherwise
  the class is called; a \<^verbatim>\<open>StandardError\<close> is trapped and the entry set to \<^verbatim>\<open>None\<close>,
  any other exception leaves the method with no entry set.
\<close>

definition load_service :: "service \<Rightarrow> exc option \<times> service \<times> event list" where
  "load_service service =
     (if svc_instance service \<noteq> None then (None, service, [])
      else case construct (svc_class service) of
             Inr obj \<Rightarrow>
               (None, service\<lparr>svc_instance := Some (Some obj)\<rparr>, [CallInit (svc_name service)])
           | Inl e \<Rightarrow>
               if is_StandardError (exc_cls e)
               then (None, service\<lparr>svc_instance := Some None\<rparr>, [CallInit (svc_name service)])
               else (Some e, service, [CallInit (svc_name service)]))"

text \<open>The service dictionary is shared with \<^verbatim>\<open>lookup\<close>: a change to it is a change there.\<close>

definition set_service :: "router \<Rightarrow> string \<Rightarrow> service \<Rightarrow> router" where
  "set_service s svc_id service =
     s\<lparr>services := (services s)\<lparr>lookup := AList.update svc_id service (lookup (services s))\<rparr>\<rparr>"

definition resolve_id :: "router \<Rightarrow> string \<Rightarrow> string" where
  "resolve_id s svc_id =
     (let svc_id = normalize_id (services s) svc_id
      in case map_of (aliases (services s)) svc_id of Some to_svc_id \<Rightarrow> to_svc_id | None \<Rightarrow> svc_id)"

definition fetch_service :: "router \<Rightarrow> string \<Rightarrow> (string \<times> service) result" where
  "fetch_service s svc_id0 =
     (let svc_id = resolve_id s svc_id0
      in case map_of (lookup (services s)) svc_id of
           None \<Rightarrow> (Inl (Exc ValueError (''There is no '' @ quoted svc_id @ '' service'')), s, [])
         | Some service0 \<Rightarrow>
             (case load_service service0 of (raised, service, evs) \<Rightarrow>
                let s1 = set_service s svc_id service
                in case raised of
                     Some e \<Rightarrow> (Inl e, s1, evs)
                   | None \<Rightarrow>
                       (case svc_instance service of
                          Some (Some obj) \<Rightarrow> (Inr (svc_id, service), s1, evs)
                        | Some None \<Rightarrow>
                            (Inl (Exc EnvironmentError
                               (''The '' @ svc_name service @ '' service is not currently available'')),
                             s1, evs)
                        | None \<Rightarrow> (Inl (Exc KeyError ''instance''), s1, evs))))"

subsection \<open>The option schema (Router._fetch_options)\<close>

text \<open>
  The assertions on one option, in the order of the source, then the colon added to the
  label and the mark added to the description of the default value of a list.
\<close>

definition mark_default :: "pyval \<Rightarrow> (pyval \<times> string) list \<Rightarrow> (pyval \<times> string) list" where
  "mark_default d items =
     map (\<lambda>item. if fst item \<noteq> d then item else (fst item, snd item @ '' [default]'')) items"

definition check_option :: "(string \<Rightarrow> string) \<Rightarrow> string \<Rightarrow> raw_option \<Rightarrow> exc + svc_option" where
  "check_option normalize0 svc_id option =
     (case raw_key option of
        None \<Rightarrow> Inl (Exc AssertionError (''missing option key for '' @ svc_id))
      | Some key \<Rightarrow>
        if normalize0 key \<noteq> key
        then Inl (Exc AssertionError (''bad '' @ svc_id @ '' key '' @ key))
        else case raw_label option of
          None \<Rightarrow> Inl (Exc AssertionError (''missing '' @ key @ '' label for '' @ svc_id))
        | Some label \<Rightarrow>
          (case raw_values option of
             None \<Rightarrow> Inl (Exc AssertionError (''missing '' @ key @ '' values for '' @ svc_id))
           | Some vals \<Rightarrow>
             if \<not> (case vals of ListOf items \<Rightarrow> True
                               | TupleOf elems \<Rightarrow> length elems \<in> {2, 3}
                               | OtherObject \<Rightarrow> False)
             then Inl (Exc AssertionError
                    (key @ '' values for '' @ svc_id @ '' should be list or 2-3-tuple''))
             else case raw_transform option of
               None \<Rightarrow> Inl (Exc AssertionError (''missing '' @ key @ '' transform for '' @ svc_id))
             | Some transform \<Rightarrow>
                 Inr \<lparr> opt_key = key,
                       opt_label = (if endswith label '':'' then label else label @ '':''),
                       opt_values = (case (raw_default option, vals) of
                                       (Some d, ListOf items) \<Rightarrow> ListOf (mark_default d items)
                                     | _ \<Rightarrow> vals),
                       opt_transform = transform,
                       opt_default = raw_default option \<rparr>))"

text \<open>
  The loop over \<^verbatim>\<open>service['instance'].options()\<close>. \<^verbatim>\<open>service['options']\<close> is set to the
  empty list before the loop and grows by one option per round, so a failed assertion
  leaves the options checked so far in place.
\<close>

fun build_options ::
  "(string \<Rightarrow> string) \<Rightarrow> string \<Rightarrow> raw_option list \<Rightarrow> svc_option list \<Rightarrow> exc option \<times> svc_option list"
  where
  "build_options normalize0 svc_id [] built = (None, built)"
| "build_options normalize0 svc_id (option # rest) built =
     (case check_option normalize0 svc_id option of
        Inl e \<Rightarrow> (Some e, built)
      | Inr svc_option \<Rightarrow> build_options normalize0 svc_id rest (built @ [svc_option]))"

definition fetch_options :: "router \<Rightarrow> string \<Rightarrow> (string \<times> service) result" where
  "fetch_options s svc_id0 =
     (case fetch_service s svc_id0 of
        (Inl e, s1, evs) \<Rightarrow> (Inl e, s1, evs)
      | (Inr (svc_id, service), s1, evs) \<Rightarrow>
          if svc_options service \<noteq> None then (Inr (svc_id, service), s1, evs)
          else case svc_instance service of
                 Some (Some obj) \<Rightarrow>
                   (case build_options (normalize_id (services s1)) svc_id (inst_options obj) [] of
                      (raised, built) \<Rightarrow>
                        let service1 = service\<lparr>svc_options := Some built\<rparr>;
                            s2 = set_service s1 svc_id service1;
                            evs2 = evs @ [CallOptions (svc_name service)]
                        in case raised of
                             Some e \<Rightarrow> (Inl e, s2, evs2)
                           | None \<Rightarrow> (Inr (svc_id, service1), s2, evs2))
               | _ \<Rightarrow> (Inl (Exc (OtherStandardError ''AttributeError'') ''options''), s1, evs))"

subsection \<open>Validation (Router._validate_text, _validate_options, _validate_service)\<close>

definition validate_text :: "router \<Rightarrow> string \<Rightarrow> exc + string" where
  "validate_text s text0 =
     (let text = textize (services s) text0
      in if text = [] then Inl (Exc ValueError ''The input text must be set.'') else Inr text)"

text \<open>
  Python 2 orders values of different types too: a number is below a string. Strings
  compare byte by byte.
\<close>

fun py_less :: "pyval \<Rightarrow> pyval \<Rightarrow> bool" where
  "py_less (VInt a) (VInt b) = (a < b)"
| "py_less (VStr a) (VStr b) = (a < b)"
| "py_less (VInt a) (VStr b) = True"
| "py_less (VStr a) (VInt b) = False"

text \<open>\<^verbatim>\<open>"%d" % v\<close> needs a number.\<close>

fun format_d :: "pyval \<Rightarrow> exc + string" where
  "format_d (VInt i) = Inr (str_int i)"
| "format_d (VStr s) = Inl (Exc TypeError ''%d format: a number is required, not str'')"

text \<open>
  The body of the \<^verbatim>\<open>try\<close> of \<^verbatim>\<open>_validate_options\<close>, up to the assignment: the
  transform, then the bounds of a tuple or the search through a list, where \<^verbatim>\<open>next\<close>
  on the exhausted generator raises \<^verbatim>\<open>StopIteration\<close>.
\<close>

definition check_value :: "svc_option \<Rightarrow> pyval \<Rightarrow> exc + pyval" where
  "check_value svc_option raw =
     (case opt_transform svc_option raw of
        Inl e \<Rightarrow> Inl e
      | Inr transformed_value \<Rightarrow>
          (case opt_values svc_option of
             TupleOf elems \<Rightarrow>
               (case elems of
                  lo # hi # _ \<Rightarrow>
                    if py_less transformed_value lo \<or> py_less hi transformed_value
                    then (case format_d lo of
                            Inl e \<Rightarrow> Inl e
                          | Inr a \<Rightarrow> (case format_d hi of
                                       Inl e \<Rightarrow> Inl e
                                     | Inr b \<Rightarrow> Inl (Exc ValueError (''outside of '' @ a @ ''..'' @ b))))
                    else Inr transformed_value
                | _ \<Rightarrow> Inl (Exc IndexError ''tuple index out of range''))
           | ListOf items \<Rightarrow>
               if transformed_value \<in> fst ` set items then Inr transformed_value
               else Inl (Exc StopIteration [])
           | OtherObject \<Rightarrow> Inl (Exc TypeError ''object is not iterable'')))"

text \<open>
  \<^verbatim>\<open>", ".join(v[0] for v in svc_option['values'])\<close> in the handler of \<^verbatim>\<open>StopIteration\<close>:
  the items must be strings, and an element of a tuple must be a string that is not empty.
\<close>

fun str_items :: "pyval list \<Rightarrow> exc + string list" where
  "str_items [] = Inr []"
| "str_items (VStr x # vs) = (case str_items vs of Inl e \<Rightarrow> Inl e | Inr xs \<Rightarrow> Inr (x # xs))"
| "str_items (VInt i # vs) = Inl (Exc TypeError ''sequence item: expected string, int found'')"

fun first_of :: "pyval \<Rightarrow> exc + pyval" where
  "first_of (VStr []) = Inl (Exc IndexError ''string index out of range'')"
| "first_of (VStr (c # cs)) = Inr (VStr [c])"
| "first_of (VInt i) = Inl (Exc TypeError ''int object has no attribute __getitem__'')"

fun firsts_of :: "pyval list \<Rightarrow> exc + pyval list" where
  "firsts_of [] = Inr []"
| "firsts_of (v # vs) =
     (case first_of v of
        Inl e \<Rightarrow> Inl e
      | Inr x \<Rightarrow> (case firsts_of vs of Inl e \<Rightarrow> Inl e | Inr xs \<Rightarrow> Inr (x # xs)))"

definition legal_values :: "value_domain \<Rightarrow> exc + string" where
  "legal_values vals =
     (case (case vals of
              ListOf items \<Rightarrow> Inr (map fst items)
            | TupleOf elems \<Rightarrow> firsts_of elems
            | OtherObject \<Rightarrow> Inl (Exc TypeError ''object is not iterable'')) of
        Inl e \<Rightarrow> Inl e
      | Inr vs \<Rightarrow> (case str_items vs of Inl e \<Rightarrow> Inl e | Inr xs \<Rightarrow> Inr (py_join '', '' xs)))"

text \<open>
  One round of the loop of \<^verbatim>\<open>_validate_options\<close>: the options after the round and the
  problem found, if any. An exception that is neither a \<^verbatim>\<open>ValueError\<close> nor a
  \<^verbatim>\<open>StopIteration\<close> leaves the method.
\<close>

definition validate_option :: "options \<Rightarrow> svc_option \<Rightarrow> exc + (options \<times> string option)" where
  "validate_option options svc_option =
     (let key = opt_key svc_option
      in case map_of options key of
           Some raw \<Rightarrow>
             (case check_value svc_option raw of
                Inr transformed_value \<Rightarrow> Inr (AList.update key transformed_value options, None)
              | Inl e \<Rightarrow>
                  if exc_cls e = ValueError
                  then Inr (options, Some (''invalid value '' @ quoted (str raw) @ '' for ''
                                           @ quoted key @ '' attribute ('' @ message e @ '')''))
                  else if exc_cls e = StopIteration
                  then (case legal_values (opt_values svc_option) of
                          Inl e' \<Rightarrow> Inl e'
                        | Inr legal \<Rightarrow>
                            Inr (options, Some (quoted (str raw) @ '' is not an option for ''
                                                @ quoted key @ '' attribute (try '' @ legal @ '')'')))
                  else Inl e)
         | None \<Rightarrow>
             (case opt_default svc_option of
                Some d \<Rightarrow> Inr (AList.update key d options, None)
              | None \<Rightarrow> Inr (options, Some (quoted key @ '' attribute is required''))))"

fun validate_options ::
  "options \<Rightarrow> svc_option list \<Rightarrow> string list \<Rightarrow> exc + (options \<times> string list)" where
  "validate_options options [] problems = Inr (options, problems)"
| "validate_options options (svc_option # rest) problems =
     (case validate_option options svc_option of
        Inl e \<Rightarrow> Inl e
      | Inr (options1, problem) \<Rightarrow>
          validate_options options1 rest
            (case problem of None \<Rightarrow> problems | Some p \<Rightarrow> problems @ [p]))"

text \<open>
  The caller's options with their keys normalized, those that the schema does not know
  dropped.
\<close>

definition known_options :: "router \<Rightarrow> svc_option list \<Rightarrow> options \<Rightarrow> options" where
  "known_options s schema options =
     dict_of (filter (\<lambda>(key, value). key \<in> set (map opt_key schema))
                     (map (\<lambda>(key, value). (normalize_id (services s) key, value)) options))"

definition validate_service ::
  "router \<Rightarrow> string \<Rightarrow> options \<Rightarrow> (string \<times> service \<times> options) result" where
  "validate_service s svc_id0 options0 =
     (case fetch_options s svc_id0 of
        (Inl e, s1, evs) \<Rightarrow> (Inl e, s1, evs)
      | (Inr (svc_id, service), s1, evs) \<Rightarrow>
          (case svc_options service of
             None \<Rightarrow> (Inl (Exc KeyError ''options''), s1, evs)
           | Some schema \<Rightarrow>
               (case validate_options (known_options s1 schema options0) schema [] of
                  Inl e \<Rightarrow> (Inl e, s1, evs)
                | Inr (options, problems) \<Rightarrow>
                    if problems \<noteq> []
                    then (Inl (Exc ValueError
                            (''Running the '' @ quoted svc_id @ '' ('' @ svc_name service
                             @ '') service failed: '' @ py_join ''; '' problems @ ''.'')), s1, evs)
                    else (Inr (svc_id, service, options), s1, evs))))"

subsection \<open>The cache path and the busy list (Router._validate_path)\<close>

definition validate_path ::
  "(string \<Rightarrow> string) \<Rightarrow> router \<Rightarrow> string \<Rightarrow> string \<Rightarrow> options \<Rightarrow> exc + string" where
  "validate_path sha1_hexdigest s svc_id text options =
     (let path = path_cache sha1_hexdigest (cache_dir s) svc_id text options
      in if path \<in> set (busy s)
         then Inl (Exc BusyError (''The '' @ quoted svc_id @ '' service is already busy processing ''
                                   @ path @ ''.''))
         else Inr path)"

subsection \<open>The pool of workers (_Pool.spawn, _Worker.run)\<close>

definition spawn :: "pool \<Rightarrow> task \<Rightarrow> closure \<Rightarrow> pool" where
  "spawn p t callback =
     (let n = next_id p + 1
      in p\<lparr> next_id := n,
            pool_callbacks := AList.update n callback (pool_callbacks p),
            workers := AList.update n t (workers p) \<rparr>)"

text \<open>
  The task \<^verbatim>\<open>lambda: service['instance'].run(text, options, path)\<close>: what it raises,
  or \<open>None\<close> when it returns.
\<close>

definition task_result :: "task \<Rightarrow> exc option" where
  "task_result t =
     (case svc_instance (task_service t) of
        Some (Some obj) \<Rightarrow> inst_run obj (task_text t) (task_options t) (task_path t)
      | Some None \<Rightarrow> Some (Exc (OtherStandardError ''AttributeError'') ''run'')
      | None \<Rightarrow> Some (Exc KeyError ''instance''))"

text \<open>
  \<^verbatim>\<open>_Worker.run\<close>: the exception argument of the signal that the thread emits. A task that
  raises outside of \<^verbatim>\<open>StandardError\<close> ends the thread with no signal emitted (\<open>None\<close>).
\<close>

definition worker_run :: "task \<Rightarrow> exc option option" where
  "worker_run t =
     (case task_result t of
        None \<Rightarrow> Some None
      | Some e \<Rightarrow> if is_StandardError (exc_cls e) then Some (Some e) else None)"

subsection \<open>Dispatch (Router.__call__) and completion (_Pool._on_signal)\<close>

definition done_events :: "callbacks \<Rightarrow> event list" where
  "done_events callbacks = (if has_done callbacks then [CbDone] else [])"

text \<open>
  The \<^verbatim>\<open>try\<close> block of \<^verbatim>\<open>__call__\<close>. \<open>disk\<close> is the set of paths that exist when
  \<^verbatim>\<open>os.path.exists\<close> is asked.
\<close>

definition parse_call ::
  "(string \<Rightarrow> string) \<Rightarrow> string set \<Rightarrow> router \<Rightarrow> string \<Rightarrow> string \<Rightarrow> options \<Rightarrow>
   (string \<times> service \<times> string \<times> options \<times> string \<times> bool) result" where
  "parse_call sha1_hexdigest disk s svc_id0 text0 options0 =
     (case validate_text s text0 of
        Inl e \<Rightarrow> (Inl e, s, [])
      | Inr text \<Rightarrow>
          (case validate_service s svc_id0 options0 of
             (Inl e, s1, evs) \<Rightarrow> (Inl e, s1, evs)
           | (Inr (svc_id, service, options), s1, evs) \<Rightarrow>
               (case validate_path sha1_hexdigest s1 svc_id text options of
                  Inl e \<Rightarrow> (Inl e, s1, evs)
                | Inr path \<Rightarrow>
                    (Inr (svc_id, service, text, options, path, path \<in> disk), s1,
                     evs @ [CallExists path]))))"

text \<open>
  \<^verbatim>\<open>__call__\<close>: the first component is the exception that leaves the method, if any.
\<close>

definition router_call ::
  "(string \<Rightarrow> string) \<Rightarrow> string set \<Rightarrow> router \<Rightarrow> string \<Rightarrow> string \<Rightarrow> options \<Rightarrow> callbacks \<Rightarrow>
   exc option \<times> router \<times> event list" where
  "router_call sha1_hexdigest disk s svc_id0 text0 options0 callbacks =
     (case parse_call sha1_hexdigest disk s svc_id0 text0 options0 of
        (Inl exception, s1, evs) \<Rightarrow>
          if is_StandardError (exc_cls exception)
          then (None, s1, evs @ done_events callbacks @ [CbFail exception])
          else (Some exception, s1, evs)
      | (Inr (svc_id, service, text, options, path, cache_hit), s1, evs) \<Rightarrow>
          if cache_hit
          then (None, s1, evs @ done_events callbacks @ [CbOkay path])
          else
            let s2 = s1\<lparr>busy := busy s1 @ [path]\<rparr>;
                t = \<lparr> task_service = service, task_text = text, task_options = options,
                      task_path = path \<rparr>;
                callback = \<lparr> cl_path = path, cl_callbacks = callbacks \<rparr>;
                s3 = s2\<lparr>pool := spawn (pool s2) t callback\<rparr>
            in (None, s3, evs @ [Spawn (next_id (pool s3)) path]))"

text \<open>
  The callback given to the pool:
  \<^verbatim>\<open>(self._busy.remove(path), 'done' in callbacks and callbacks['done'](),
     exception and callbacks['fail'](exception) or callbacks['okay'](path))\<close>.
  An exception object is true; \<^verbatim>\<open>a and b or c\<close> evaluates \<open>c\<close> whenever \<open>a and b\<close> is false.
\<close>

definition completed :: "closure \<Rightarrow> exc option \<Rightarrow> router \<Rightarrow> exc + (router \<times> event list)" where
  "completed callback exception s =
     (let path = cl_path callback; callbacks = cl_callbacks callback
      in if path \<notin> set (busy s) then Inl (Exc ValueError ''list.remove(x): x not in list'')
         else Inr (s\<lparr>busy := remove1 path (busy s)\<rparr>,
                   done_events callbacks @
                   (case exception of
                      None \<Rightarrow> [CbOkay path]
                    | Some e \<Rightarrow> CbFail e # (if fail_result callbacks then [] else [CbOkay path]))))"

definition on_signal :: "router \<Rightarrow> nat \<Rightarrow> exc option \<Rightarrow> exc option \<times> router \<times> event list" where
  "on_signal s worker_id exception =
     (case map_of (pool_callbacks (pool s)) worker_id of
        None \<Rightarrow> (Some (Exc KeyError (str_nat worker_id)), s, [])
      | Some callback \<Rightarrow>
          (case completed callback exception s of
             Inl e \<Rightarrow> (Some e, s, [])
           | Inr (s1, evs) \<Rightarrow>
               let s2 = s1\<lparr>pool := (pool s1)\<lparr>pool_callbacks :=
                             AList.delete worker_id (pool_callbacks (pool s1))\<rparr>\<rparr>
               in if worker_id \<notin> fst ` set (workers (pool s2))
                  then (Some (Exc KeyError (str_nat worker_id)), s2, evs)
                  else (None, s2\<lparr>pool := (pool s2)\<lparr>workers :=
                                  AList.delete worker_id (workers (pool s2))\<rparr>\<rparr>, evs)))"

subsection \<open>The queries (by_trait, get_services, get_desc, get_options)\<close>

definition by_trait :: "router \<Rightarrow> string \<Rightarrow> string list" where
  "by_trait s trait =
     map (\<lambda>(svc_id, service). svc_name service)
         (filter (\<lambda>(svc_id, service). trait \<in> set (svc_traits service)) (lookup (services s)))"

definition py_lower :: "string \<Rightarrow> string" where
  "py_lower text =
     map (\<lambda>c. if CHR ''A'' \<le> c \<and> c \<le> CHR ''Z'' then char_of (of_char c + (32::nat)) else c) text"

fun load_all ::
  "(string \<times> service) list \<Rightarrow> exc option \<times> (string \<times> service) list \<times> event list" where
  "load_all [] = (None, [], [])"
| "load_all ((svc_id, service0) # rest) =
     (case load_service service0 of
        (Some e, service, evs) \<Rightarrow> (Some e, (svc_id, service) # rest, evs)
      | (None, service, evs) \<Rightarrow>
          (case load_all rest of
             (raised, rest1, evs1) \<Rightarrow> (raised, (svc_id, service) # rest1, evs @ evs1)))"

definition get_services :: "router \<Rightarrow> (string \<times> string) list result" where
  "get_services s =
     (if avail (services s) = None \<or> avail (services s) = Some []
      then case load_all (lookup (services s)) of
             (raised, lookup1, evs) \<Rightarrow>
               let s1 = s\<lparr>services := (services s)\<lparr>lookup := lookup1\<rparr>\<rparr>
               in case raised of
                    Some e \<Rightarrow> (Inl e, s1, evs)
                  | None \<Rightarrow>
                      let listed = sort_key (\<lambda>(svc_id, text). py_lower text)
                            (map (\<lambda>(svc_id, service). (svc_id, svc_name service))
                               (filter (\<lambda>(svc_id, service).
                                          case svc_instance service of Some (Some obj) \<Rightarrow> True
                                          | _ \<Rightarrow> False) lookup1))
                      in (Inr listed, s1\<lparr>services := (services s1)\<lparr>avail := Some listed\<rparr>\<rparr>, evs)
      else case avail (services s) of
             Some listed \<Rightarrow> (Inr listed, s, [])
           | None \<Rightarrow> (Inr [], s, []))"

definition get_desc :: "router \<Rightarrow> string \<Rightarrow> string result" where
  "get_desc s svc_id0 =
     (case fetch_service s svc_id0 of
        (Inl e, s1, evs) \<Rightarrow> (Inl e, s1, evs)
      | (Inr (svc_id, service), s1, evs) \<Rightarrow>
          (case svc_desc service of
             Some desc \<Rightarrow> (Inr desc, s1, evs)
           | None \<Rightarrow>
               (case svc_instance service of
                  Some (Some obj) \<Rightarrow>
                    (Inr (inst_desc obj),
                     set_service s1 svc_id (service\<lparr>svc_desc := Some (inst_desc obj)\<rparr>),
                     evs @ [CallDesc (svc_name service)])
                | _ \<Rightarrow> (Inl (Exc (OtherStandardError ''AttributeError'') ''desc''), s1, evs))))"

definition get_options :: "router \<Rightarrow> string \<Rightarrow> svc_option list result" where
  "get_options s svc_id0 =
     (case fetch_options s svc_id0 of
        (Inl e, s1, evs) \<Rightarrow> (Inl e, s1, evs)
      | (Inr (svc_id, service), s1, evs) \<Rightarrow>
          (case svc_options service of
             Some schema \<Rightarrow> (Inr schema, s1, evs)
           | None \<Rightarrow> (Inl (Exc KeyError ''options''), s1, evs)))"

subsection \<open>A small registry to run the router on\<close>

text \<open>
  \<^verbatim>\<open>TO_NORMALIZED\<close> of awesometts/__init__.py keeps the letters and digits, in lower
  case. \<^verbatim>\<open>STRIP_ALL\<close> goes through Anki's HTML stripper; \<open>strip\<close>, which removes
  the blanks at both ends, stands for it in the examples. \<open>identity_digest\<close> stands for
  SHA-1 there.
\<close>

definition is_alnum :: "char \<Rightarrow> bool" where
  "is_alnum c = ((CHR ''a'' \<le> c \<and> c \<le> CHR ''z'') \<or> (CHR ''A'' \<le> c \<and> c \<le> CHR ''Z'')
                 \<or> (CHR ''0'' \<le> c \<and> c \<le> CHR ''9''))"

definition TO_NORMALIZED :: "string \<Rightarrow> string" where
  "TO_NORMALIZED v = py_lower (filter is_alnum v)"

definition strip :: "string \<Rightarrow> string" where
  "strip text = rev (dropWhile (\<lambda>c. c = CHR '' '') (rev (dropWhile (\<lambda>c. c = CHR '' '') text)))"

definition identity_digest :: "string \<Rightarrow> string" where
  "identity_digest hash_input = hash_input"

text \<open>A transform like \<^verbatim>\<open>int\<close>: digits give a number, anything else a \<^verbatim>\<open>ValueError\<close>.\<close>

definition to_int :: "pyval \<Rightarrow> exc + pyval" where
  "to_int v =
     (case v of
        VInt i \<Rightarrow> Inr (VInt i)
      | VStr x \<Rightarrow>
          if x \<noteq> [] \<and> (\<forall>c \<in> set x. CHR ''0'' \<le> c \<and> c \<le> CHR ''9'')
          then Inr (VInt (int (foldl (\<lambda>n c. 10 * n + (of_char c - 48)) 0 x)))
          else Inl (Exc ValueError (''invalid literal for int() with base 10: '' @ quoted x)))"

text \<open>
  The service of the specification's scenarios: \<open>voice\<close> is one of two listed values,
  \<open>rate\<close> lies between 1 and 10; \<open>pitch\<close> has a default.
\<close>

definition acme_voice :: raw_option where
  "acme_voice = \<lparr> raw_key = Some ''voice'', raw_label = Some ''Voice'',
                   raw_values = Some (ListOf [(VStr ''en'', ''English''), (VStr ''fr'', ''French'')]),
                   raw_transform = Some Inr, raw_default = None \<rparr>"

definition acme_rate :: raw_option where
  "acme_rate = \<lparr> raw_key = Some ''rate'', raw_label = Some ''Rate:'',
                  raw_values = Some (TupleOf [VInt 1, VInt 10]),
                  raw_transform = Some to_int, raw_default = None \<rparr>"

definition acme_pitch :: raw_option where
  "acme_pitch = \<lparr> raw_key = Some ''pitch'', raw_label = Some ''Pitch'',
                   raw_values = Some (TupleOf [VInt 0, VInt 100, VStr ''%'']),
                   raw_transform = Some to_int, raw_default = Some (VInt 50) \<rparr>"

definition acme_object :: "(string \<Rightarrow> options \<Rightarrow> string \<Rightarrow> exc option) \<Rightarrow> service_instance" where
  "acme_object run =
     \<lparr> inst_options = [acme_voice, acme_rate, acme_pitch], inst_desc = ''Acme speech'',
       inst_run = run \<rparr>"

definition acme_class :: "exc + service_instance \<Rightarrow> svc_class" where
  "acme_class outcome =
     \<lparr> cls_NAME = Some ''Acme TTS'', cls_TRAITS = Some [''INTERNET''], construct = outcome \<rparr>"

definition demo_router :: "exc + service_instance \<Rightarrow> router" where
  "demo_router outcome =
     router_init [(''Acme'', acme_class outcome)] [(''a'', ''acme'')] TO_NORMALIZED strip ''cache''"

text \<open>A \<^verbatim>\<open>run\<close> that returns, and one that raises an \<^verbatim>\<open>IOError\<close> (an \<^verbatim>\<open>EnvironmentError\<close>).\<close>

definition run_ok :: "string \<Rightarrow> options \<Rightarrow> string \<Rightarrow> exc option" where
  "run_ok text options path = None"

definition run_fails :: "string \<Rightarrow> options \<Rightarrow> string \<Rightarrow> exc option" where
  "run_fails text options path = Some (Exc EnvironmentError ''no route to host'')"

subsection \<open>Notions used to state the properties\<close>

text \<open>
  Two states of the router that differ at most in the registry's lazily filled entries:
  the busy list, the pool, the cache directory, the aliases and the two normalizers agree.
\<close>

definition same_frame :: "router \<Rightarrow> router \<Rightarrow> bool" where
  "same_frame s s1 =
     (busy s1 = busy s \<and> pool s1 = pool s \<and> cache_dir s1 = cache_dir s
      \<and> aliases (services s1) = aliases (services s)
      \<and> normalize_id (services s1) = normalize_id (services s)
      \<and> textize (services s1) = textize (services s))"

text \<open>The part of a trace that the caller sees: the callbacks fired, in order.\<close>

fun is_callback :: "event \<Rightarrow> bool" where
  "is_callback CbDone = True"
| "is_callback (CbOkay path) = True"
| "is_callback (CbFail e) = True"
| "is_callback _ = False"

definition fired :: "event list \<Rightarrow> event list" where
  "fired evs = filter is_callback evs"

text \<open>The workers started, with the path each one is to produce.\<close>

fun spawned :: "event list \<Rightarrow> (nat \<times> string) list" where
  "spawned [] = []"
| "spawned (Spawn n path # evs) = (n, path) # spawned evs"
| "spawned (_ # evs) = spawned evs"

text \<open>The paths that \<^verbatim>\<open>os.path.exists\<close> was asked about.\<close>

fun asked :: "event list \<Rightarrow> string list" where
  "asked [] = []"
| "asked (CallExists path # evs) = path # asked evs"
| "asked (_ # evs) = asked evs"

text \<open>
  A call followed by the delivery of the signal of the worker that it started, if it
  started one and the worker emits its signal. The call may raise (\<open>CallRaised\<close>), answer
  through the callbacks at once (\<open>Answered\<close>), or start a worker, whose thread ends
  without a signal (\<open>NoSignal\<close>) or whose signal reaches \<^verbatim>\<open>_on_signal\<close> (\<open>Delivered\<close>,
  or \<open>DeliveryRaised\<close> when the pool's callback raises).
\<close>

datatype ending = CallRaised exc | Answered | NoSignal nat | Delivered nat | DeliveryRaised exc

definition lifecycle ::
  "(string \<Rightarrow> string) \<Rightarrow> string set \<Rightarrow> router \<Rightarrow> string \<Rightarrow> string \<Rightarrow> options \<Rightarrow> callbacks \<Rightarrow>
   ending \<times> router \<times> event list" where
  "lifecycle sha1_hexdigest disk s svc_id0 text0 options0 callbacks =
     (case router_call sha1_hexdigest disk s svc_id0 text0 options0 callbacks of
        (Some e, s1, evs) \<Rightarrow> (CallRaised e, s1, evs)
      | (None, s1, evs) \<Rightarrow>
          (case spawned evs of
             [] \<Rightarrow> (Answered, s1, evs)
           | (n, path) # _ \<Rightarrow>
               (case map_of (workers (pool s1)) n of
                  None \<Rightarrow> (NoSignal n, s1, evs)
                | Some t \<Rightarrow>
                    (case worker_run t of
                       None \<Rightarrow> (NoSignal n, s1, evs)
                     | Some exception \<Rightarrow>
                         (case on_signal s1 n exception of
                            (Some e, s2, evs2) \<Rightarrow> (DeliveryRaised e, s2, evs @ evs2)
                          | (None, s2, evs2) \<Rightarrow> (Delivered n, s2, evs @ evs2))))))"

text \<open>
  The requests of the scenarios, and the router once the first of them has started its
  worker on a cold cache.
\<close>

definition with_done :: callbacks where
  "with_done = \<lparr> has_done = True, fail_result = False \<rparr>"

definition hello_options :: options where
  "hello_options = [(''Voice'', VStr ''en''), (''rate'', VStr ''5'')]"

definition hello_path :: string where
  "hello_path = ''cache/acme-Hello/acme/pitch=50;rate=5;voice=en.mp3''"

definition busy_router :: "(string \<Rightarrow> options \<Rightarrow> string \<Rightarrow> exc option) \<Rightarrow> router" where
  "busy_router run =
     fst (snd (router_call identity_digest {} (demo_router (Inr (acme_object run)))
                 ''acme'' '' Hello '' hello_options with_done))"

section \<open>Properties\<close>

subsection \<open>The cache path\<close>

lemma sorted_items_cong:
  assumes "distinct (map fst xs)" and "distinct (map fst ys)" and "map_of xs = map_of ys"
  shows "sorted_items xs = sorted_items ys"
proof -
  have set_eq: "set xs = set ys"
    using assms by (simp add: map_of_inject_set)
  have "distinct xs" and "distinct ys"
    using assms(1,2) by (simp_all add: distinct_map)
  then have "mset xs = mset (sort_key fst ys)"
    using set_eq by (simp add: set_eq_iff_mset_eq_distinct)
  moreover have "inj_on fst (set xs)"
    using assms(1) by (simp add: distinct_map)
  moreover have "sorted (map fst (sort_key fst ys))"
    by simp
  ultimately have "sort_key fst xs = sort_key fst ys"
    by (rule sort_key_inj_key_eq)
  then show ?thesis by (simp add: sorted_items_def)
qed

text \<open>
  C4. The cache path is a function of the cache directory, the service ID, the text and
  the option dictionary alone; two dictionaries that bind the same keys to the same
  values give the same path, whatever the order in which their keys are listed.
\<close>

theorem path_cache_deterministic:
  assumes "distinct (map fst options1)" and "distinct (map fst options2)"
    and "map_of options1 = map_of options2"
  shows "path_cache sha1_hexdigest dir svc_id text options1
       = path_cache sha1_hexdigest dir svc_id text options2"
  using sorted_items_cong [OF assms] by (simp add: path_cache_def)

theorem path_cache_deterministic_witness:
  "distinct (map fst [(''voice'', VStr ''en''), (''rate'', VInt 5)])
   \<and> distinct (map fst [(''rate'', VInt 5), (''voice'', VStr ''en'')])
   \<and> map_of [(''voice'', VStr ''en''), (''rate'', VInt 5)]
       = map_of [(''rate'', VInt 5), (''voice'', VStr ''en'')]
   \<and> path_cache (\<lambda>s. s) ''cache'' ''acme'' ''Hello'' [(''voice'', VStr ''en''), (''rate'', VInt 5)]
       = path_cache (\<lambda>s. s) ''cache'' ''acme'' ''Hello'' [(''rate'', VInt 5), (''voice'', VStr ''en'')]"
proof -
  have d1: "distinct (map fst [(''voice'', VStr ''en''), (''rate'', VInt 5)])" by simp
  have d2: "distinct (map fst [(''rate'', VInt 5), (''voice'', VStr ''en'')])" by simp
  have m: "map_of [(''voice'', VStr ''en''), (''rate'', VInt 5)]
         = map_of [(''rate'', VInt 5), (''voice'', VStr ''en'')]"
    by (rule ext) simp
  show ?thesis
    using d1 d2 m path_cache_deterministic [OF d1 d2 m, of "\<lambda>s. s" "''cache''" "''acme''" "''Hello''"]
    by blast
qed


lemma set_service_frame [simp]:
  "busy (set_service s k v) = busy s"
  "pool (set_service s k v) = pool s"
  "cache_dir (set_service s k v) = cache_dir s"
  "aliases (services (set_service s k v)) = aliases (services s)"
  "avail (services (set_service s k v)) = avail (services s)"
  "normalize_id (services (set_service s k v)) = normalize_id (services s)"
  "textize (services (set_service s k v)) = textize (services s)"
  "lookup (services (set_service s k v)) = AList.update k v (lookup (services s))"
  by (simp_all add: set_service_def)

lemma same_frame_refl [simp]: "same_frame s s"
  by (simp add: same_frame_def)

lemma same_frame_set_service [simp]: "same_frame s (set_service s1 k v) = same_frame s s1"
  by (simp add: same_frame_def)

lemma fetch_service_frame:
  "fetch_service s svc_id0 = (r, s1, evs) \<Longrightarrow> same_frame s s1"
  by (auto simp: fetch_service_def Let_def split: option.splits prod.splits)

lemma fetch_options_frame:
  "fetch_options s svc_id0 = (r, s1, evs) \<Longrightarrow> same_frame s s1"
  by (auto simp: fetch_options_def Let_def split: option.splits prod.splits sum.splits if_splits
           dest: fetch_service_frame)

lemma validate_service_frame:
  "validate_service s svc_id0 options0 = (r, s1, evs) \<Longrightarrow> same_frame s s1"
  by (auto simp: validate_service_def split: option.splits prod.splits sum.splits if_splits
           dest: fetch_options_frame)

lemma parse_call_frame:
  "parse_call sha1_hexdigest disk s svc_id0 text0 options0 = (r, s1, evs) \<Longrightarrow> same_frame s s1"
  by (auto simp: parse_call_def split: option.splits prod.splits sum.splits if_splits
           dest: validate_service_frame)

subsection \<open>What the validation phase leaves in the trace\<close>

lemma fired_append [simp]: "fired (xs @ ys) = fired xs @ fired ys"
  by (simp add: fired_def)

lemma fired_simps [simp]:
  "fired [] = []"
  "fired (CbDone # evs) = CbDone # fired evs"
  "fired (CbOkay path # evs) = CbOkay path # fired evs"
  "fired (CbFail e # evs) = CbFail e # fired evs"
  "fired (CallInit name # evs) = fired evs"
  "fired (CallOptions name # evs) = fired evs"
  "fired (CallDesc name # evs) = fired evs"
  "fired (CallExists path # evs) = fired evs"
  "fired (Spawn n path # evs) = fired evs"
  by (simp_all add: fired_def)

lemma fired_done_events [simp]: "fired (done_events callbacks) = done_events callbacks"
  by (simp add: done_events_def)

lemma spawned_append [simp]: "spawned (xs @ ys) = spawned xs @ spawned ys"
  by (induction xs rule: spawned.induct) simp_all

lemma spawned_done_events [simp]: "spawned (done_events callbacks) = []"
  by (simp add: done_events_def)

lemma asked_append [simp]: "asked (xs @ ys) = asked xs @ asked ys"
  by (induction xs rule: asked.induct) simp_all

lemma asked_done_events [simp]: "asked (done_events callbacks) = []"
  by (simp add: done_events_def)

lemma load_service_quiet:
  "load_service service0 = (raised, service, evs)
   \<Longrightarrow> fired evs = [] \<and> spawned evs = [] \<and> asked evs = []"
  by (auto simp: load_service_def split: if_splits sum.splits)

lemma fetch_service_quiet:
  "fetch_service s svc_id0 = (r, s1, evs)
   \<Longrightarrow> fired evs = [] \<and> spawned evs = [] \<and> asked evs = []"
  by (auto simp: fetch_service_def Let_def split: option.splits prod.splits
           dest: load_service_quiet)

lemma fetch_options_quiet:
  "fetch_options s svc_id0 = (r, s1, evs)
   \<Longrightarrow> fired evs = [] \<and> spawned evs = [] \<and> asked evs = []"
  by (auto simp: fetch_options_def Let_def split: option.splits prod.splits sum.splits if_splits
           dest: fetch_service_quiet)

lemma validate_service_quiet:
  "validate_service s svc_id0 options0 = (r, s1, evs)
   \<Longrightarrow> fired evs = [] \<and> spawned evs = [] \<and> asked evs = []"
  by (auto simp: validate_service_def split: option.splits prod.splits sum.splits if_splits
           dest: fetch_options_quiet)

lemma parse_call_quiet:
  "parse_call sha1_hexdigest disk s svc_id0 text0 options0 = (r, s1, evs)
   \<Longrightarrow> fired evs = [] \<and> spawned evs = []
       \<and> asked evs = (case r of Inl e \<Rightarrow> []
                       | Inr (svc_id, service, body, vopts, path, cache_hit) \<Rightarrow> [path])"
  by (auto simp: parse_call_def split: option.splits prod.splits sum.splits if_splits
           dest: validate_service_quiet)

subsection \<open>Empty text\<close>

text \<open>
  C6. When the text is empty after \<^verbatim>\<open>textize\<close>, the call does not raise: it fires
  \<^verbatim>\<open>done\<close> (if given) and then \<^verbatim>\<open>fail\<close> with the \<^verbatim>\<open>ValueError\<close> "The input text must be
  set." The trace holds nothing else (no service is initialized, no schema is built,
  \<^verbatim>\<open>os.path.exists\<close> is not asked), the router is left as it was, and this is so
  whatever the registry and the disk hold.
\<close>

theorem empty_text_fails_first:
  assumes "textize (services s) text0 = []"
  shows "router_call sha1_hexdigest disk s svc_id0 text0 options0 callbacks
       = (None, s, done_events callbacks @ [CbFail (Exc ValueError ''The input text must be set.'')])"
  using assms by (simp add: router_call_def parse_call_def validate_text_def)

theorem empty_text_fails_first_witness:
  "textize (services (demo_router (Inr (acme_object run_ok)))) ''   '' = []
   \<and> router_call identity_digest {} (demo_router (Inr (acme_object run_ok))) ''acme'' ''   ''
         [(''voice'', VStr ''en'')] \<lparr> has_done = True, fail_result = False \<rparr>
       = (None, demo_router (Inr (acme_object run_ok)),
          [CbDone, CbFail (Exc ValueError ''The input text must be set.'')])"
proof -
  have h: "textize (services (demo_router (Inr (acme_object run_ok)))) ''   '' = []"
    by (simp add: demo_router_def router_init_def strip_def)
  show ?thesis
    using h empty_text_fails_first [OF h, of identity_digest "{}" "''acme''"
        "[(''voice'', VStr ''en'')]" "\<lparr> has_done = True, fail_result = False \<rparr>"]
    by (simp add: done_events_def)
qed

subsection \<open>The busy list changes only when a worker is started\<close>

lemma next_id_spawn [simp]: "next_id (spawn p t callback) = next_id p + 1"
  by (simp add: spawn_def Let_def)

lemma router_call_cases:
  assumes "router_call sha1_hexdigest disk s svc_id0 text0 options0 callbacks = (raised, s1, evs)"
  obtains
    (escaped) e pre where "raised = Some e" "\<not> is_StandardError (exc_cls e)" "same_frame s s1"
      "evs = pre" "fired pre = []" "spawned pre = []" "asked pre = []"
  | (failed) e pre where "raised = None" "is_StandardError (exc_cls e)" "same_frame s s1"
      "evs = pre @ done_events callbacks @ [CbFail e]" "fired pre = []" "spawned pre = []"
      "asked pre = []"
  | (hit) path pre where "raised = None" "same_frame s s1" "path \<in> disk" "path \<notin> set (busy s)"
      "evs = pre @ done_events callbacks @ [CbOkay path]" "fired pre = []" "spawned pre = []"
      "asked pre = [path]"
  | (miss) path pre mid t where "raised = None" "same_frame s mid" "path \<notin> disk"
      "path \<notin> set (busy s)"
      "s1 = mid\<lparr>busy := busy mid @ [path],
                pool := spawn (pool mid) t \<lparr> cl_path = path, cl_callbacks = callbacks \<rparr>\<rparr>"
      "task_path t = path"
      "evs = pre @ [Spawn (next_id (pool s) + 1) path]" "fired pre = []" "spawned pre = []"
      "asked pre = [path]"
proof (cases "parse_call sha1_hexdigest disk s svc_id0 text0 options0")
  case (fields r s0 evs0)
  note quiet = parse_call_quiet [OF fields] and frame = parse_call_frame [OF fields]
  show ?thesis
  proof (cases r)
    case (Inl e)
    with fields assms quiet frame show ?thesis
      by (cases "is_StandardError (exc_cls e)")
         (auto simp: router_call_def intro: escaped failed)
  next
    case (Inr parsed)
    obtain svc_id service body vopts path cache_hit
      where parsed: "parsed = (svc_id, service, body, vopts, path, cache_hit)"
      by (cases parsed) auto
    have hit_iff: "cache_hit = (path \<in> disk)" and not_busy: "path \<notin> set (busy s)"
      using fields Inr parsed frame
      by (auto simp: parse_call_def validate_path_def Let_def same_frame_def
               split: sum.splits prod.splits if_splits)
    show ?thesis
    proof (cases cache_hit)
      case True
      with fields Inr parsed assms quiet frame hit_iff not_busy show ?thesis
        by (auto simp: router_call_def intro: hit)
    next
      case False
      let ?t = "\<lparr> task_service = service, task_text = body, task_options = vopts,
                  task_path = path \<rparr>"
      from False fields Inr parsed assms frame have
        "raised = None"
        "s1 = s0\<lparr>busy := busy s0 @ [path],
                 pool := spawn (pool s0) ?t \<lparr> cl_path = path, cl_callbacks = callbacks \<rparr>\<rparr>"
        "evs = evs0 @ [Spawn (next_id (pool s) + 1) path]"
        by (auto simp: router_call_def Let_def same_frame_def)
      moreover have "task_path ?t = path" by simp
      moreover have "fired evs0 = []" "spawned evs0 = []" "asked evs0 = [path]"
        using quiet Inr parsed by simp_all
      moreover have "path \<notin> disk" using False hit_iff by simp
      ultimately show ?thesis
        using frame not_busy
        by (intro miss [where path = path and mid = s0 and t = ?t and pre = evs0]) simp_all
    qed
  qed
qed

lemma fired_empty_iff: "fired evs = [] \<longleftrightarrow> (\<forall>ev \<in> set evs. \<not> is_callback ev)"
  by (simp add: fired_def filter_empty_conv)

lemma not_fired_fail: "fired evs = [] \<Longrightarrow> CbFail e \<notin> set evs"
  by (auto simp: fired_empty_iff)

lemma spawned_empty_iff: "spawned evs = [] \<longleftrightarrow> (\<forall>n path. Spawn n path \<notin> set evs)"
  by (induction evs rule: spawned.induct) auto

text \<open>
  C10. A call that reports a failure through \<^verbatim>\<open>fail\<close> leaves the busy list as it was.
  The busy list changes only in a call that hands a task to the pool, and then by the one
  path of that task, appended.
\<close>

theorem busy_changes_only_on_spawn:
  assumes "router_call sha1_hexdigest disk s svc_id0 text0 options0 callbacks = (raised, s1, evs)"
  shows "(\<forall>e. CbFail e \<in> set evs \<longrightarrow> busy s1 = busy s \<and> spawned evs = [])
       \<and> (spawned evs = [] \<longrightarrow> busy s1 = busy s)
       \<and> (\<forall>n path. Spawn n path \<in> set evs \<longrightarrow> spawned evs = [(n, path)] \<and> busy s1 = busy s @ [path])"
  using assms
proof (cases rule: router_call_cases)
  case (escaped e pre)
  then show ?thesis by (auto simp: same_frame_def spawned_empty_iff)
next
  case (failed e pre)
  then show ?thesis by (auto simp: same_frame_def spawned_empty_iff done_events_def dest: not_fired_fail)
next
  case (hit path pre)
  then show ?thesis by (auto simp: same_frame_def spawned_empty_iff done_events_def dest: not_fired_fail)
next
  case (miss path pre mid t)
  then show ?thesis
    by (auto simp: same_frame_def spawned_empty_iff done_events_def dest: not_fired_fail)
qed

lemma demo_ghost:
  "router_call identity_digest {} (demo_router (Inr (acme_object run_ok))) ''ghost'' ''Hello'' []
     \<lparr> has_done = False, fail_result = False \<rparr>
   = (None, demo_router (Inr (acme_object run_ok)),
      [CbFail (Exc ValueError (''There is no '' @ quoted ''ghost'' @ '' service''))])"
  by (simp add: router_call_def parse_call_def validate_text_def validate_service_def
        fetch_options_def fetch_service_def resolve_id_def demo_router_def router_init_def
        dict_of_def TO_NORMALIZED_def py_lower_def is_alnum_def strip_def done_events_def
        new_service_def acme_class_def Let_def)

lemma triple_collapse: "p = (fst p, fst (snd p), snd (snd p))"
  by simp

theorem busy_changes_only_on_spawn_witness:
  "CbFail (Exc BusyError (''The '' @ quoted ''acme'' @ '' service is already busy processing ''
                           @ hello_path @ ''.''))
     \<in> set (snd (snd (router_call identity_digest {hello_path} (busy_router run_ok)
                        ''acme'' ''Hello'' hello_options with_done)))
   \<and> busy (fst (snd (router_call identity_digest {hello_path} (busy_router run_ok)
                        ''acme'' ''Hello'' hello_options with_done)))
     = busy (busy_router run_ok)
   \<and> busy (busy_router run_ok) = [hello_path]"
proof -
  let ?r = "router_call identity_digest {hello_path} (busy_router run_ok)
              ''acme'' ''Hello'' hello_options with_done"
  have fails: "CbFail (Exc BusyError (''The '' @ quoted ''acme''
                 @ '' service is already busy processing '' @ hello_path @ ''.''))
               \<in> set (snd (snd ?r))"
    by code_simp
  have "busy (busy_router run_ok) = [hello_path]"
    by code_simp
  with fails busy_changes_only_on_spawn [OF triple_collapse [of ?r]] show ?thesis
    by blast
qed

end
